theory Spec2Isabelle
  imports Complex_Main
begin

section \<open>JavaScript numbers\<close>

text \<open>
  The program computes with JavaScript numbers. They are modelled as a real number or the
  invalid value \<open>NaN\<close>: every arithmetic operation with an invalid operand is invalid, the
  square root of a negative number is invalid, and every comparison with an invalid
  operand is false. Rounding of doubles and the two infinities are not modelled; the
  divisions of the program all have a non-zero divisor (a literal, or a duration tested
  to be positive), so the value chosen for a zero divisor is never reached.
\<close>

datatype jsnum = Num real | NaN

fun jadd :: "jsnum \<Rightarrow> jsnum \<Rightarrow> jsnum" where
  "jadd (Num a) (Num b) = Num (a + b)"
| "jadd _ _ = NaN"

fun jsub :: "jsnum \<Rightarrow> jsnum \<Rightarrow> jsnum" where
  "jsub (Num a) (Num b) = Num (a - b)"
| "jsub _ _ = NaN"

fun jmul :: "jsnum \<Rightarrow> jsnum \<Rightarrow> jsnum" where
  "jmul (Num a) (Num b) = Num (a * b)"
| "jmul _ _ = NaN"

fun jdiv :: "jsnum \<Rightarrow> jsnum \<Rightarrow> jsnum" where
  "jdiv (Num a) (Num b) = (if b = 0 then NaN else Num (a / b))"
| "jdiv _ _ = NaN"

fun jsqrt :: "jsnum \<Rightarrow> jsnum" where
  "jsqrt (Num a) = (if a < 0 then NaN else Num (sqrt a))"
| "jsqrt NaN = NaN"

fun jsin :: "jsnum \<Rightarrow> jsnum" where
  "jsin (Num a) = Num (sin a)"
| "jsin NaN = NaN"

fun jcos :: "jsnum \<Rightarrow> jsnum" where
  "jcos (Num a) = Num (cos a)"
| "jcos NaN = NaN"

text \<open>\<open>Math.atan2(y, x)\<close> on reals: the angle of the point \<open>(x, y)\<close>, in \<open>(-pi, pi]\<close>.\<close>

definition atan2 :: "real \<Rightarrow> real \<Rightarrow> real" where
  "atan2 b a =
     (if 0 < a then arctan (b / a)
      else if a < 0 then (if 0 \<le> b then arctan (b / a) + pi else arctan (b / a) - pi)
      else if 0 < b then pi / 2
      else if b < 0 then - (pi / 2)
      else 0)"

fun jatan2 :: "jsnum \<Rightarrow> jsnum \<Rightarrow> jsnum" where
  "jatan2 (Num b) (Num a) = Num (atan2 b a)"
| "jatan2 _ _ = NaN"

text \<open>\<open>Math.round\<close>: the nearest integer, a half rounded up.\<close>

fun jround :: "jsnum \<Rightarrow> jsnum" where
  "jround (Num a) = Num (of_int \<lfloor>a + 1 / 2\<rfloor>)"
| "jround NaN = NaN"

text \<open>The comparison \<open>a > b\<close>.\<close>

fun jgt :: "jsnum \<Rightarrow> jsnum \<Rightarrow> bool" where
  "jgt (Num a) (Num b) = (b < a)"
| "jgt _ _ = False"

text \<open>The comparison \<open>a <= b\<close>.\<close>

fun jle :: "jsnum \<Rightarrow> jsnum \<Rightarrow> bool" where
  "jle (Num a) (Num b) = (a \<le> b)"
| "jle _ _ = False"

definition Math_PI :: jsnum where
  "Math_PI = Num pi"

section \<open>The classifier of \<open>lib/utils/sensors.ts\<close>\<close>

text \<open>
  \<open>AccelerometerReading\<close> of \<open>lib/types\<close>; the fields \<open>x\<close>, \<open>y\<close>, \<open>z\<close> and
  \<open>timestamp\<close> carry the prefix \<open>r_\<close>. A timestamp is a result of \<open>Date.now()\<close>, an
  integer number of milliseconds.
\<close>

record AccelerometerReading =
  r_x :: jsnum
  r_y :: jsnum
  r_z :: jsnum
  r_timestamp :: int

datatype severity = Low | Medium | High

definition POTHOLE_THRESHOLD :: jsnum where
  "POTHOLE_THRESHOLD = Num 15"

definition detectPothole :: "AccelerometerReading \<Rightarrow> bool" where
  "detectPothole reading =
     (let magnitude = jsqrt (jadd (jadd (jmul (r_x reading) (r_x reading))
                                        (jmul (r_y reading) (r_y reading)))
                                  (jmul (r_z reading) (r_z reading)))
      in jgt magnitude POTHOLE_THRESHOLD)"

definition calculateSeverity :: "AccelerometerReading \<Rightarrow> severity" where
  "calculateSeverity reading =
     (let magnitude = jsqrt (jadd (jadd (jmul (r_x reading) (r_x reading))
                                        (jmul (r_y reading) (r_y reading)))
                                  (jmul (r_z reading) (r_z reading)))
      in if jgt magnitude (Num 25) then High
         else if jgt magnitude (Num 20) then Medium
         else Low)"

text \<open>
  \<open>handleMotion\<close> inside \<open>SensorManager.startAccelerometer\<close> builds the reading handed to
  the callback: each axis of the browser's event is \<open>v || 0\<close>, so a missing (\<open>null\<close>),
  invalid or zero axis becomes \<open>0\<close>.
\<close>

fun or_zero :: "jsnum option \<Rightarrow> jsnum" where
  "or_zero None = Num 0"
| "or_zero (Some NaN) = Num 0"
| "or_zero (Some (Num a)) = Num a"

definition handleMotion ::
  "jsnum option \<Rightarrow> jsnum option \<Rightarrow> jsnum option \<Rightarrow> int \<Rightarrow> AccelerometerReading" where
  "handleMotion ex ey ez now =
     \<lparr>r_x = or_zero ex, r_y = or_zero ey, r_z = or_zero ez, r_timestamp = now\<rparr>"

text \<open>
  \<open>calculateDistance\<close>: the haversine distance in metres between two fixes given in
  degrees.
\<close>

definition calculateDistance :: "jsnum \<Rightarrow> jsnum \<Rightarrow> jsnum \<Rightarrow> jsnum \<Rightarrow> jsnum" where
  "calculateDistance lat1 lon1 lat2 lon2 =
     (let R = Num 6371000;
          phi1 = jdiv (jmul lat1 Math_PI) (Num 180);
          phi2 = jdiv (jmul lat2 Math_PI) (Num 180);
          dphi = jdiv (jmul (jsub lat2 lat1) Math_PI) (Num 180);
          dlam = jdiv (jmul (jsub lon2 lon1) Math_PI) (Num 180);
          a = jadd (jmul (jsin (jdiv dphi (Num 2))) (jsin (jdiv dphi (Num 2))))
                   (jmul (jmul (jmul (jcos phi1) (jcos phi2)) (jsin (jdiv dlam (Num 2))))
                         (jsin (jdiv dlam (Num 2))));
          c = jmul (Num 2) (jatan2 (jsqrt a) (jsqrt (jsub (Num 1) a)))
      in jmul R c)"

section \<open>The page component: session state\<close>

text \<open>
  The types of \<open>lib/types\<close> as the page component uses them. Field names carry a prefix
  naming their record (\<open>l_\<close>, \<open>e_\<close>, \<open>s_\<close>, \<open>p_\<close>), since several records share the
  names \<open>id\<close>, \<open>timestamp\<close>, \<open>speed\<close> and \<open>totalDistance\<close>. \<open>userConfirmed\<close> is
  \<open>boolean | null\<close>: \<open>None\<close> is the pending state.
\<close>

record LocationData =
  l_latitude :: jsnum
  l_longitude :: jsnum
  l_speed :: "jsnum option"
  l_accuracy :: jsnum
  l_timestamp :: int

datatype label = pothole_detected | pothole_confirmed | false_positive

record PotholeEvent =
  e_id :: string
  e_timestamp :: int
  e_accelerometer :: AccelerometerReading
  e_location :: LocationData
  e_speed :: "jsnum option"
  e_label :: label
  e_userConfirmed :: "bool option"
  e_severity :: severity

record DrivingSession =
  s_id :: string
  s_startTime :: int
  s_endTime :: "int option"
  s_events :: "PotholeEvent list"
  s_totalDistance :: jsnum
  s_averageSpeed :: jsnum

datatype SessionStatus = Idle | Active | Paused

record PermissionDetails =
  p_accelerometer :: bool
  p_location :: bool

text \<open>
  The variables of the page component that the session functions read or write.
  \<open>mapReady\<close> stands for \<open>map && directionsRenderer\<close>, the only thing the session
  functions ask of the map widget; the widget itself, the markers and the timer are not
  modelled.
\<close>

record page =
  sessionStatus :: SessionStatus
  currentSession :: "DrivingSession option"
  permissionDetails :: PermissionDetails
  currentAccelerometer :: "AccelerometerReading option"
  currentLocation :: "LocationData option"
  currentSpeed :: jsnum
  eventsCount :: nat
  confirmedPotholes :: nat
  falsePositives :: nat
  sessionDuration :: string
  totalDistance :: jsnum
  lastLocation :: "LocationData option"
  sessionStartTime :: int
  startCoords :: "(jsnum \<times> jsnum) option"
  destinationCoords :: "(jsnum \<times> jsnum) option"
  mapReady :: bool
  navigationStarted :: bool

definition initial_page :: page where
  "initial_page =
     \<lparr>sessionStatus = Idle, currentSession = None,
      permissionDetails = \<lparr>p_accelerometer = False, p_location = False\<rparr>,
      currentAccelerometer = None, currentLocation = None, currentSpeed = Num 0,
      eventsCount = 0, confirmedPotholes = 0, falsePositives = 0,
      sessionDuration = ''00:00:00'', totalDistance = Num 0, lastLocation = None,
      sessionStartTime = 0, startCoords = None, destinationCoords = None,
      mapReady = False, navigationStarted = False\<rparr>"

text \<open>The events of the current session; none when there is no session.\<close>

definition session_events :: "page \<Rightarrow> PotholeEvent list" where
  "session_events s = (case currentSession s of None \<Rightarrow> [] | Some cs \<Rightarrow> s_events cs)"

section \<open>The page component: session functions\<close>

text \<open>
  \<open>startSession\<close>. \<open>Date.now()\<close> and \<open>generateEventId()\<close> are the arguments \<open>now\<close> and
  \<open>newId\<close>. Each of the three early returns shows an alert and changes nothing: it is
  the \<open>Inl\<close> result. The function does not look at \<open>sessionStatus\<close> or
  \<open>currentSession\<close>.
\<close>

datatype start_alert = MotionSensorRequired | LocationRequired | RouteRequired

definition startSession :: "int \<Rightarrow> string \<Rightarrow> page \<Rightarrow> start_alert + page" where
  "startSession now newId s =
     (if \<not> p_accelerometer (permissionDetails s) then Inl MotionSensorRequired
      else if \<not> p_location (permissionDetails s) then Inl LocationRequired
      else if startCoords s = None \<or> destinationCoords s = None then Inl RouteRequired
      else Inr (s\<lparr>sessionStatus := Active,
                  sessionStartTime := now,
                  currentSession := Some \<lparr>s_id = newId, s_startTime = now, s_endTime = None,
                                           s_events = [], s_totalDistance = Num 0,
                                           s_averageSpeed = Num 0\<rparr>,
                  eventsCount := 0,
                  confirmedPotholes := 0,
                  falsePositives := 0,
                  totalDistance := Num 0,
                  navigationStarted := (if mapReady s then True else navigationStarted s)\<rparr>))"

text \<open>
  \<open>stopSession\<close> returns the session handed to \<open>exportSessionData\<close> (none after the
  early return) and the new state.
\<close>

definition stopSession :: "int \<Rightarrow> page \<Rightarrow> DrivingSession option \<times> page" where
  "stopSession now s =
     (case currentSession s of
        None \<Rightarrow> (None, s)
      | Some cs \<Rightarrow>
          (let duration = jdiv (jdiv (Num (of_int (now - s_startTime cs))) (Num 1000)) (Num 60);
               finished = cs\<lparr>s_endTime := Some now,
                             s_averageSpeed :=
                               (if jgt duration (Num 0)
                                then jmul (jdiv (totalDistance s) duration) (Num 60)
                                else Num 0),
                             s_totalDistance := totalDistance s\<rparr>
           in (Some finished,
               s\<lparr>sessionStatus := Idle,
                  navigationStarted := False,
                  currentSession := None,
                  currentAccelerometer := None,
                  currentLocation := None,
                  currentSpeed := Num 0,
                  sessionDuration := ''00:00:00''\<rparr>)))"

text \<open>
  \<open>handleAccelerometerData\<close>, as in the first revision of the page component: every
  candidate reading with a current location and a current session is pushed.
\<close>

definition handleAccelerometerData :: "string \<Rightarrow> AccelerometerReading \<Rightarrow> page \<Rightarrow> page" where
  "handleAccelerometerData newId reading s =
     (let s1 = s\<lparr>currentAccelerometer := Some reading\<rparr>
      in if detectPothole reading then
           (case currentLocation s1 of
              None \<Rightarrow> s1
            | Some loc \<Rightarrow>
                (case currentSession s1 of
                   None \<Rightarrow> s1
                 | Some cs \<Rightarrow>
                     (let event = \<lparr>e_id = newId, e_timestamp = r_timestamp reading,
                                   e_accelerometer = reading, e_location = loc,
                                   e_speed = l_speed loc, e_label = pothole_detected,
                                   e_userConfirmed = None,
                                   e_severity = calculateSeverity reading\<rparr>;
                          evs = s_events cs @ [event]
                      in s1\<lparr>eventsCount := length evs,
                            currentSession := Some (cs\<lparr>s_events := evs\<rparr>)\<rparr>)))
         else s1)"

text \<open>
  The second revision of the same function, later in the same file: the severity is
  computed first and only \<open>medium\<close> and \<open>high\<close> are pushed; a \<open>low\<close> candidate is only
  written to the console.
\<close>

definition handleAccelerometerData_rev2 ::
  "string \<Rightarrow> AccelerometerReading \<Rightarrow> page \<Rightarrow> page" where
  "handleAccelerometerData_rev2 newId reading s =
     (let s1 = s\<lparr>currentAccelerometer := Some reading\<rparr>
      in if detectPothole reading then
           (case currentLocation s1 of
              None \<Rightarrow> s1
            | Some loc \<Rightarrow>
                (case currentSession s1 of
                   None \<Rightarrow> s1
                 | Some cs \<Rightarrow>
                     (let severity = calculateSeverity reading
                      in if severity = Medium \<or> severity = High then
                           (let event = \<lparr>e_id = newId, e_timestamp = r_timestamp reading,
                                         e_accelerometer = reading, e_location = loc,
                                         e_speed = l_speed loc, e_label = pothole_detected,
                                         e_userConfirmed = None, e_severity = severity\<rparr>;
                                evs = s_events cs @ [event]
                            in s1\<lparr>eventsCount := length evs,
                                  currentSession := Some (cs\<lparr>s_events := evs\<rparr>)\<rparr>)
                         else s1)))
         else s1)"

definition handleLocationData :: "LocationData \<Rightarrow> page \<Rightarrow> page" where
  "handleLocationData location s =
     (let s1 = s\<lparr>currentLocation := Some location\<rparr>;
          s2 = (case l_speed location of
                  None \<Rightarrow> s1
                | Some v \<Rightarrow> s1\<lparr>currentSpeed := jround (jmul v (Num (36 / 10)))\<rparr>);
          s3 = (case lastLocation s2 of
                  None \<Rightarrow> s2
                | Some previous \<Rightarrow>
                    (case currentSession s2 of
                       None \<Rightarrow> s2
                     | Some cs \<Rightarrow>
                         (let distance = calculateDistance (l_latitude previous) (l_longitude previous)
                                           (l_latitude location) (l_longitude location);
                              total = jadd (totalDistance s2) (jdiv distance (Num 1000))
                          in s2\<lparr>totalDistance := total,
                                currentSession := Some (cs\<lparr>s_totalDistance := total\<rparr>)\<rparr>)))
      in s3\<lparr>lastLocation := Some location\<rparr>)"

text \<open>
  \<open>events.find\<close> yields the first event with the given id, and the assignments change
  that object in place: \<open>update_first\<close> changes the first element that satisfies the
  test.
\<close>

fun update_first :: "('a \<Rightarrow> bool) \<Rightarrow> ('a \<Rightarrow> 'a) \<Rightarrow> 'a list \<Rightarrow> 'a list" where
  "update_first P f [] = []"
| "update_first P f (e # es) = (if P e then f e # es else e # update_first P f es)"

definition confirmPothole :: "string \<Rightarrow> page \<Rightarrow> page" where
  "confirmPothole eventId s =
     (case currentSession s of
        None \<Rightarrow> s
      | Some cs \<Rightarrow>
          (case find (\<lambda>e. e_id e = eventId) (s_events cs) of
             None \<Rightarrow> s
           | Some event \<Rightarrow>
               s\<lparr>confirmedPotholes := confirmedPotholes s + 1,
                  currentSession :=
                    Some (cs\<lparr>s_events :=
                      update_first (\<lambda>e. e_id e = eventId)
                        (\<lambda>e. e\<lparr>e_userConfirmed := Some True, e_label := pothole_confirmed\<rparr>)
                        (s_events cs)\<rparr>)\<rparr>))"

definition markFalsePositive :: "string \<Rightarrow> page \<Rightarrow> page" where
  "markFalsePositive eventId s =
     (case currentSession s of
        None \<Rightarrow> s
      | Some cs \<Rightarrow>
          (case find (\<lambda>e. e_id e = eventId) (s_events cs) of
             None \<Rightarrow> s
           | Some event \<Rightarrow>
               s\<lparr>falsePositives := falsePositives s + 1,
                  currentSession :=
                    Some (cs\<lparr>s_events :=
                      update_first (\<lambda>e. e_id e = eventId)
                        (\<lambda>e. e\<lparr>e_userConfirmed := Some False, e_label := false_positive\<rparr>)
                        (s_events cs)\<rparr>)\<rparr>))"

text \<open>
  The reactive block \<open>$: if (currentSession) { ... }\<close>, which the framework runs again
  after a function has assigned to \<open>currentSession\<close>: the three counters are computed
  from the event list.
\<close>

definition reactive_counts :: "page \<Rightarrow> page" where
  "reactive_counts s =
     (case currentSession s of
        None \<Rightarrow> s
      | Some cs \<Rightarrow>
          s\<lparr>eventsCount := length (s_events cs),
             confirmedPotholes := length (filter (\<lambda>e. e_userConfirmed e = Some True) (s_events cs)),
             falsePositives := length (filter (\<lambda>e. e_userConfirmed e = Some False) (s_events cs))\<rparr>)"

section \<open>Runs of the page component\<close>

text \<open>
  What can happen to the page: the outcome of the permission request, the choice of the
  two route endpoints, the map widget becoming available, the two session buttons, the
  two sensor callbacks and the two confirmation buttons. A run applies a list of such
  actions in order; the reactive block runs after each.
\<close>

datatype action =
    PermissionsResult PermissionDetails
  | StartCoords "(jsnum \<times> jsnum) option"
  | DestinationCoords "(jsnum \<times> jsnum) option"
  | MapReady
  | StartSession int string
  | StopSession int
  | AccelerometerData string AccelerometerReading
  | LocationFix LocationData
  | ConfirmPothole string
  | MarkFalsePositive string

fun perform :: "action \<Rightarrow> page \<Rightarrow> page" where
  "perform (PermissionsResult p) s = s\<lparr>permissionDetails := p\<rparr>"
| "perform (StartCoords c) s = s\<lparr>startCoords := c\<rparr>"
| "perform (DestinationCoords c) s = s\<lparr>destinationCoords := c\<rparr>"
| "perform MapReady s = s\<lparr>mapReady := True\<rparr>"
| "perform (StartSession now newId) s =
     (case startSession now newId s of Inl alert \<Rightarrow> s | Inr s' \<Rightarrow> s')"
| "perform (StopSession now) s = snd (stopSession now s)"
| "perform (AccelerometerData newId reading) s = handleAccelerometerData newId reading s"
| "perform (LocationFix location) s = handleLocationData location s"
| "perform (ConfirmPothole eventId) s = confirmPothole eventId s"
| "perform (MarkFalsePositive eventId) s = markFalsePositive eventId s"

fun run :: "action list \<Rightarrow> page \<Rightarrow> page" where
  "run [] s = s"
| "run (a # as) s = run as (reactive_counts (perform a s))"

fun is_location_fix :: "action \<Rightarrow> bool" where
  "is_location_fix (LocationFix location) = True"
| "is_location_fix _ = False"

text \<open>
  What an event records of its detection: everything but the two confirmation fields.
\<close>

definition stored_detection ::
  "PotholeEvent \<Rightarrow> string \<times> int \<times> AccelerometerReading \<times> LocationData \<times> jsnum option \<times> severity" where
  "stored_detection e =
     (e_id e, e_timestamp e, e_accelerometer e, e_location e, e_speed e, e_severity e)"

text \<open>A fix is well formed when its coordinates are numbers and its latitude is in range.\<close>

definition valid_fix :: "LocationData \<Rightarrow> bool" where
  "valid_fix l =
     (case (l_latitude l, l_longitude l) of
        (Num la, Num lo) \<Rightarrow> - 90 \<le> la \<and> la \<le> 90
      | _ \<Rightarrow> False)"

subsection \<open>Concrete states and inputs\<close>

definition fix_a :: LocationData where
  "fix_a = \<lparr>l_latitude = Num 0, l_longitude = Num 0, l_speed = None,
            l_accuracy = Num 5, l_timestamp = 500\<rparr>"

definition fix_b :: LocationData where
  "fix_b = \<lparr>l_latitude = Num 0, l_longitude = Num 180, l_speed = Some (Num 10),
            l_accuracy = Num 5, l_timestamp = 2000\<rparr>"

definition ready_page :: page where
  "ready_page =
     run [PermissionsResult \<lparr>p_accelerometer = True, p_location = True\<rparr>,
          StartCoords (Some (Num 0, Num 0)),
          DestinationCoords (Some (Num 0, Num 1))] initial_page"

definition active_page :: page where
  "active_page = run [StartSession 1000 ''s1''] ready_page"

definition located_page :: page where
  "located_page = run [LocationFix fix_a] active_page"

definition low_reading :: AccelerometerReading where
  "low_reading = \<lparr>r_x = Num 0, r_y = Num 0, r_z = Num 18, r_timestamp = 3000\<rparr>"

definition high_reading :: AccelerometerReading where
  "high_reading = \<lparr>r_x = Num 0, r_y = Num 0, r_z = Num 30, r_timestamp = 3000\<rparr>"

definition logged_page :: page where
  "logged_page = run [AccelerometerData ''e1'' high_reading] located_page"

section \<open>The classifier: thresholds\<close>

lemma sumsq_nonneg: "\<not> a * a + b * b + c * c < (0::real)"
  by (simp add: not_less add_nonneg_nonneg)

lemma sqrt400: "sqrt 400 = (20::real)"
  using real_sqrt_abs2 [of 20] by simp

lemma sqrt625: "sqrt 625 = (25::real)"
  using real_sqrt_abs2 [of 25] by simp

lemma sqrt225: "sqrt 225 = (15::real)"
  using real_sqrt_abs2 [of 15] by simp

lemma magnitude_NaN:
  "r_x reading = NaN \<or> r_y reading = NaN \<or> r_z reading = NaN \<Longrightarrow>
   jsqrt (jadd (jadd (jmul (r_x reading) (r_x reading)) (jmul (r_y reading) (r_y reading)))
               (jmul (r_z reading) (r_z reading))) = NaN"
  by (cases "r_x reading"; cases "r_y reading"; cases "r_z reading") auto

text \<open>
  Claim C6. For a reading with axes \<open>a\<close>, \<open>b\<close>, \<open>c\<close> and magnitude
  \<open>m = sqrt (a\<^sup>2 + b\<^sup>2 + c\<^sup>2)\<close>, \<open>calculateSeverity\<close> is high exactly when \<open>m > 25\<close>,
  medium exactly when \<open>20 < m \<le> 25\<close>, and low exactly when \<open>m \<le> 20\<close>; the lower bound of a
  tier is exclusive: magnitude exactly 20 is low and magnitude exactly 25 is medium.
\<close>

theorem calculateSeverity_tiers:
  "(calculateSeverity \<lparr>r_x = Num a, r_y = Num b, r_z = Num c, r_timestamp = t\<rparr> = High
      \<longleftrightarrow> 25 < sqrt (a * a + b * b + c * c))
   \<and> (calculateSeverity \<lparr>r_x = Num a, r_y = Num b, r_z = Num c, r_timestamp = t\<rparr> = Medium
      \<longleftrightarrow> 20 < sqrt (a * a + b * b + c * c) \<and> sqrt (a * a + b * b + c * c) \<le> 25)
   \<and> (calculateSeverity \<lparr>r_x = Num a, r_y = Num b, r_z = Num c, r_timestamp = t\<rparr> = Low
      \<longleftrightarrow> sqrt (a * a + b * b + c * c) \<le> 20)
   \<and> calculateSeverity \<lparr>r_x = Num 0, r_y = Num 0, r_z = Num 20, r_timestamp = t\<rparr> = Low
   \<and> calculateSeverity \<lparr>r_x = Num 0, r_y = Num 0, r_z = Num 25, r_timestamp = t\<rparr> = Medium"
  unfolding calculateSeverity_def Let_def
  by (simp add: sumsq_nonneg sqrt400 sqrt625)

text \<open>
  Claim C7. For a reading with axes \<open>a\<close>, \<open>b\<close>, \<open>c\<close>, \<open>detectPothole\<close> is true if and
  only if \<open>sqrt (a\<^sup>2 + b\<^sup>2 + c\<^sup>2) > 15\<close> (equivalently, the sum of squares exceeds
  225); for a magnitude of at most 15 it is false.
\<close>

theorem detectPothole_iff:
  "(detectPothole \<lparr>r_x = Num a, r_y = Num b, r_z = Num c, r_timestamp = t\<rparr>
      \<longleftrightarrow> 15 < sqrt (a * a + b * b + c * c))
   \<and> (detectPothole \<lparr>r_x = Num a, r_y = Num b, r_z = Num c, r_timestamp = t\<rparr>
      \<longleftrightarrow> 225 < a * a + b * b + c * c)
   \<and> (\<not> detectPothole \<lparr>r_x = Num a, r_y = Num b, r_z = Num c, r_timestamp = t\<rparr>
      \<longleftrightarrow> sqrt (a * a + b * b + c * c) \<le> 15)"
proof -
  have d: "detectPothole \<lparr>r_x = Num a, r_y = Num b, r_z = Num c, r_timestamp = t\<rparr>
      \<longleftrightarrow> 15 < sqrt (a * a + b * b + c * c)"
    unfolding detectPothole_def POTHOLE_THRESHOLD_def Let_def
    by (simp add: sumsq_nonneg)
  have "(15 < sqrt (a * a + b * b + c * c)) = (sqrt 225 < sqrt (a * a + b * b + c * c))"
    by (simp only: sqrt225)
  then have sq: "(15 < sqrt (a * a + b * b + c * c)) = (225 < a * a + b * b + c * c)"
    by (simp only: real_sqrt_less_iff)
  show ?thesis using d sq by (auto simp only: not_less)
qed

text \<open>
  Claim C9. A reading with an invalid axis is classified like a reading of magnitude 0:
  \<open>detectPothole\<close> is false and \<open>calculateSeverity\<close> is low. Both functions are total and
  return a boolean and a severity tier, so neither can fail nor return the invalid value.
\<close>

theorem classifier_NaN:
  "r_x reading = NaN \<or> r_y reading = NaN \<or> r_z reading = NaN \<Longrightarrow>
   detectPothole reading = False \<and> calculateSeverity reading = Low
   \<and> detectPothole reading
       = detectPothole \<lparr>r_x = Num 0, r_y = Num 0, r_z = Num 0, r_timestamp = r_timestamp reading\<rparr>
   \<and> calculateSeverity reading
       = calculateSeverity \<lparr>r_x = Num 0, r_y = Num 0, r_z = Num 0, r_timestamp = r_timestamp reading\<rparr>"
  unfolding detectPothole_def calculateSeverity_def POTHOLE_THRESHOLD_def Let_def
  by (simp add: magnitude_NaN)

theorem classifier_NaN_witness:
  "(r_x \<lparr>r_x = NaN, r_y = Num 30, r_z = Num 0, r_timestamp = 0\<rparr> = NaN
    \<or> r_y \<lparr>r_x = NaN, r_y = Num 30, r_z = Num 0, r_timestamp = 0\<rparr> = NaN
    \<or> r_z \<lparr>r_x = NaN, r_y = Num 30, r_z = Num 0, r_timestamp = 0\<rparr> = NaN)
   \<and> detectPothole \<lparr>r_x = NaN, r_y = Num 30, r_z = Num 0, r_timestamp = 0\<rparr> = False
   \<and> calculateSeverity \<lparr>r_x = NaN, r_y = Num 30, r_z = Num 0, r_timestamp = 0\<rparr> = Low"
  using classifier_NaN [of "\<lparr>r_x = NaN, r_y = Num 30, r_z = Num 0, r_timestamp = 0\<rparr>"]
  by simp

section \<open>Concrete states\<close>

lemma ready_page_eq:
  "ready_page = initial_page\<lparr>permissionDetails := \<lparr>p_accelerometer = True, p_location = True\<rparr>,
      startCoords := Some (Num 0, Num 0), destinationCoords := Some (Num 0, Num 1)\<rparr>"
  by (simp add: ready_page_def initial_page_def reactive_counts_def)

lemma active_page_eq:
  "active_page = ready_page\<lparr>sessionStatus := Active, sessionStartTime := 1000,
      currentSession := Some \<lparr>s_id = ''s1'', s_startTime = 1000, s_endTime = None, s_events = [],
                               s_totalDistance = Num 0, s_averageSpeed = Num 0\<rparr>\<rparr>"
  by (simp add: active_page_def ready_page_eq initial_page_def startSession_def reactive_counts_def)

lemma located_page_eq:
  "located_page = active_page\<lparr>currentLocation := Some fix_a, lastLocation := Some fix_a\<rparr>"
  by (simp add: located_page_def active_page_eq ready_page_eq initial_page_def
      handleLocationData_def reactive_counts_def fix_a_def Let_def)

lemma low_reading_candidate: "detectPothole low_reading \<and> calculateSeverity low_reading = Low"
proof -
  have "sqrt 324 = (18::real)" using real_sqrt_abs2 [of 18] by simp
  then show ?thesis
    by (simp add: detectPothole_def calculateSeverity_def low_reading_def POTHOLE_THRESHOLD_def)
qed

lemma high_reading_candidate: "detectPothole high_reading \<and> calculateSeverity high_reading = High"
proof -
  have "sqrt 900 = (30::real)" using real_sqrt_abs2 [of 30] by simp
  then show ?thesis
    by (simp add: detectPothole_def calculateSeverity_def high_reading_def POTHOLE_THRESHOLD_def)
qed

lemma reading_timestamps: "r_timestamp low_reading = 3000" "r_timestamp high_reading = 3000"
  by (simp_all add: low_reading_def high_reading_def)

lemma handleAccelerometerData_rev2_low:
  "calculateSeverity reading = Low \<Longrightarrow>
   currentSession (handleAccelerometerData_rev2 newId reading s) = currentSession s"
  by (simp add: handleAccelerometerData_rev2_def Let_def split: option.splits)

text \<open>
  The first revision of \<open>handleAccelerometerData\<close> has no test on the severity: in an
  active session with a current location the reading \<open>(0, 0, 18)\<close>, a candidate of
  severity low, is appended.
\<close>


lemma first_revision_logs_low_candidate:
  "sessionStatus located_page = Active
   \<and> detectPothole low_reading
   \<and> calculateSeverity low_reading = Low
   \<and> session_events located_page = []
   \<and> session_events (handleAccelerometerData ''e1'' low_reading located_page)
       = [\<lparr>e_id = ''e1'', e_timestamp = 3000, e_accelerometer = low_reading,
           e_location = fix_a, e_speed = None, e_label = pothole_detected,
           e_userConfirmed = None, e_severity = Low\<rparr>]"
  using low_reading_candidate
  by (simp add: located_page_eq active_page_eq ready_page_eq initial_page_def
      handleAccelerometerData_def session_events_def Let_def fix_a_def reading_timestamps)

lemma located_page_fields:
  "currentLocation located_page = Some fix_a"
  "currentSession located_page = Some \<lparr>s_id = ''s1'', s_startTime = 1000, s_endTime = None,
      s_events = [], s_totalDistance = Num 0, s_averageSpeed = Num 0\<rparr>"
  "sessionStatus located_page = Active"
  "session_events located_page = []"
  by (simp_all add: located_page_eq active_page_eq ready_page_eq initial_page_def session_events_def)

text \<open>
  Claim C1, on \<open>handleAccelerometerData\<close> as the later revision has it. A candidate of
  severity low leaves the session, and so its event list, unchanged. Whatever the
  reading, the function keeps the events of the session and appends at most new ones,
  each of severity medium or high, for a reading that is a candidate, located at the
  current location. A candidate of severity medium or high, with a current location and
  a current session, appends exactly one event.
\<close>

theorem low_candidates_not_logged:
  "(calculateSeverity reading = Low \<longrightarrow>
      currentSession (handleAccelerometerData_rev2 newId reading s) = currentSession s)
   \<and> (\<exists>new. session_events (handleAccelerometerData_rev2 newId reading s) = session_events s @ new
         \<and> (\<forall>e\<in>set new. e_accelerometer e = reading
               \<and> e_severity e = calculateSeverity reading
               \<and> (e_severity e = Medium \<or> e_severity e = High)
               \<and> detectPothole reading
               \<and> currentLocation s = Some (e_location e)))
   \<and> (detectPothole reading \<and> currentLocation s = Some loc \<and> currentSession s = Some cs
        \<and> calculateSeverity reading \<noteq> Low \<longrightarrow>
        session_events (handleAccelerometerData_rev2 newId reading s)
          = s_events cs @ [\<lparr>e_id = newId, e_timestamp = r_timestamp reading,
                             e_accelerometer = reading, e_location = loc,
                             e_speed = l_speed loc, e_label = pothole_detected,
                             e_userConfirmed = None,
                             e_severity = calculateSeverity reading\<rparr>])"
proof -
  have a: "calculateSeverity reading = Low \<longrightarrow>
      currentSession (handleAccelerometerData_rev2 newId reading s) = currentSession s"
    by (simp add: handleAccelerometerData_rev2_def Let_def split: option.splits)
  have b: "\<exists>new. session_events (handleAccelerometerData_rev2 newId reading s) = session_events s @ new
         \<and> (\<forall>e\<in>set new. e_accelerometer e = reading
               \<and> e_severity e = calculateSeverity reading
               \<and> (e_severity e = Medium \<or> e_severity e = High)
               \<and> detectPothole reading
               \<and> currentLocation s = Some (e_location e))"
    by (auto simp: handleAccelerometerData_rev2_def session_events_def Let_def split: option.splits)
  have c: "detectPothole reading \<and> currentLocation s = Some loc \<and> currentSession s = Some cs
        \<and> calculateSeverity reading \<noteq> Low \<longrightarrow>
        session_events (handleAccelerometerData_rev2 newId reading s)
          = s_events cs @ [\<lparr>e_id = newId, e_timestamp = r_timestamp reading,
                             e_accelerometer = reading, e_location = loc,
                             e_speed = l_speed loc, e_label = pothole_detected,
                             e_userConfirmed = None,
                             e_severity = calculateSeverity reading\<rparr>]"
    by (cases "calculateSeverity reading")
       (auto simp: handleAccelerometerData_rev2_def session_events_def Let_def)
  show ?thesis using a b c by blast
qed

text \<open>
  C1 in an active session with a current location: the low candidate \<open>(0, 0, 18)\<close>
  appends nothing, the high candidate \<open>(0, 0, 30)\<close> appends one event.
\<close>

theorem low_candidates_not_logged_witness:
  "sessionStatus located_page = Active
   \<and> currentLocation located_page = Some fix_a
   \<and> detectPothole low_reading \<and> calculateSeverity low_reading = Low
   \<and> session_events (handleAccelerometerData_rev2 ''e1'' low_reading located_page) = []
   \<and> detectPothole high_reading \<and> calculateSeverity high_reading = High
   \<and> session_events (handleAccelerometerData_rev2 ''e1'' high_reading located_page)
       = [\<lparr>e_id = ''e1'', e_timestamp = 3000, e_accelerometer = high_reading,
           e_location = fix_a, e_speed = None, e_label = pothole_detected,
           e_userConfirmed = None, e_severity = High\<rparr>]"
proof -
  have sp: "l_speed fix_a = None" by (simp add: fix_a_def)
  have lo: "session_events (handleAccelerometerData_rev2 ''e1'' low_reading located_page) = []"
    using low_candidates_not_logged [of low_reading "''e1''" located_page]
      low_reading_candidate located_page_fields
    by (simp add: session_events_def)
  have hi: "session_events (handleAccelerometerData_rev2 ''e1'' high_reading located_page)
       = [\<lparr>e_id = ''e1'', e_timestamp = 3000, e_accelerometer = high_reading,
           e_location = fix_a, e_speed = None, e_label = pothole_detected,
           e_userConfirmed = None, e_severity = High\<rparr>]"
    using low_candidates_not_logged [of high_reading "''e1''" located_page fix_a
        "\<lparr>s_id = ''s1'', s_startTime = 1000, s_endTime = None,
          s_events = [], s_totalDistance = Num 0, s_averageSpeed = Num 0\<rparr>"]
      high_reading_candidate located_page_fields
    by (simp add: sp reading_timestamps)
  show ?thesis
    using lo hi low_reading_candidate high_reading_candidate located_page_fields by simp
qed

lemma logged_page_eq:
  "logged_page = located_page\<lparr>currentAccelerometer := Some high_reading, eventsCount := 1,
     currentSession := Some \<lparr>s_id = ''s1'', s_startTime = 1000, s_endTime = None,
        s_events = [\<lparr>e_id = ''e1'', e_timestamp = 3000, e_accelerometer = high_reading,
           e_location = fix_a, e_speed = None, e_label = pothole_detected,
           e_userConfirmed = None, e_severity = High\<rparr>],
        s_totalDistance = Num 0, s_averageSpeed = Num 0\<rparr>\<rparr>"
  using high_reading_candidate
  by (simp add: logged_page_def located_page_eq active_page_eq ready_page_eq initial_page_def
      handleAccelerometerData_def reactive_counts_def Let_def fix_a_def reading_timestamps)

lemma logged_page_run:
  "run [PermissionsResult \<lparr>p_accelerometer = True, p_location = True\<rparr>,
        StartCoords (Some (Num 0, Num 0)), DestinationCoords (Some (Num 0, Num 1)),
        StartSession 1000 ''s1'', LocationFix fix_a, AccelerometerData ''e1'' high_reading]
     initial_page = logged_page"
  unfolding logged_page_def located_page_def active_page_def ready_page_def
  by (simp only: run.simps)

lemma logged_page_session:
  "currentSession logged_page =
     Some \<lparr>s_id = ''s1'', s_startTime = 1000, s_endTime = None,
        s_events = [\<lparr>e_id = ''e1'', e_timestamp = 3000, e_accelerometer = high_reading,
           e_location = fix_a, e_speed = None, e_label = pothole_detected,
           e_userConfirmed = None, e_severity = High\<rparr>],
        s_totalDistance = Num 0, s_averageSpeed = Num 0\<rparr>"
  "totalDistance logged_page = Num 0"
  by (simp_all add: logged_page_eq located_page_eq active_page_eq ready_page_eq initial_page_def)

section \<open>Confirmation\<close>

lemma find_update_first:
  "(\<And>e. P (f e) = P e) \<Longrightarrow> find P (update_first P f es) = map_option f (find P es)"
  by (induction es) auto

lemma update_first_twice:
  "(\<And>e. P (f e) = P e) \<Longrightarrow> update_first P g (update_first P f es) = update_first P (\<lambda>e. g (f e)) es"
  by (induction es) auto

lemma update_first_map:
  "(\<And>e. h (f e) = h e) \<Longrightarrow> map h (update_first P f es) = map h es"
  by (induction es) auto

lemma find_None_update_first: "find P es = None \<Longrightarrow> update_first P f es = es"
  by (induction es) (auto split: if_splits)

lemma confirm_session:
  "currentSession (confirmPothole i s) =
     map_option (\<lambda>cs. cs\<lparr>s_events := update_first (\<lambda>e. e_id e = i)
        (\<lambda>e. e\<lparr>e_userConfirmed := Some True, e_label := pothole_confirmed\<rparr>) (s_events cs)\<rparr>)
      (currentSession s)"
  by (auto simp: confirmPothole_def find_None_update_first split: option.splits)

lemma reject_session:
  "currentSession (markFalsePositive i s) =
     map_option (\<lambda>cs. cs\<lparr>s_events := update_first (\<lambda>e. e_id e = i)
        (\<lambda>e. e\<lparr>e_userConfirmed := Some False, e_label := false_positive\<rparr>) (s_events cs)\<rparr>)
      (currentSession s)"
  by (auto simp: markFalsePositive_def find_None_update_first split: option.splits)

lemma update_first_rel:
  "(\<And>e. R e e) \<Longrightarrow> (\<And>e. R e (f e)) \<Longrightarrow> list_all2 R es (update_first P f es)"
  by (induction es) (auto simp: list_all2_refl)

lemma update_first_others:
  "(\<And>e. P (f e) = P e) \<Longrightarrow>
   filter (\<lambda>e. \<not> P e) (update_first P f es) = filter (\<lambda>e. \<not> P e) es"
  by (induction es) auto

lemma confirm_events:
  "session_events (confirmPothole i s) =
     update_first (\<lambda>e. e_id e = i)
        (\<lambda>e. e\<lparr>e_userConfirmed := Some True, e_label := pothole_confirmed\<rparr>) (session_events s)"
  by (cases "currentSession s") (simp_all add: session_events_def confirm_session)

lemma reject_events:
  "session_events (markFalsePositive i s) =
     update_first (\<lambda>e. e_id e = i)
        (\<lambda>e. e\<lparr>e_userConfirmed := Some False, e_label := false_positive\<rparr>) (session_events s)"
  by (cases "currentSession s") (simp_all add: session_events_def reject_session)

text \<open>
  Claim C2, as the code has it. Confirming twice gives the same session as confirming
  once, and so does rejecting twice; the page state after the reactive block is the same
  as well, for both. \<open>confirmPothole\<close> leaves the first event with the given id with
  \<open>userConfirmed\<close> true and the label \<open>pothole_confirmed\<close>, \<open>markFalsePositive\<close> leaves
  it with \<open>userConfirmed\<close> false and the label \<open>false_positive\<close>, and neither tests
  that the event is pending, so the last call wins: after \<open>reject\<close> following
  \<open>confirm\<close> the event is rejected, as after \<open>reject\<close> alone, and after \<open>confirm\<close>
  following \<open>reject\<close> it is confirmed. Events with another id are not touched, and no
  event that is resolved is pending afterwards.
\<close>


theorem confirmation_last_call_wins:
  "currentSession (confirmPothole i (confirmPothole i s)) = currentSession (confirmPothole i s)
   \<and> currentSession (markFalsePositive i (markFalsePositive i s)) = currentSession (markFalsePositive i s)
   \<and> currentSession (markFalsePositive i (confirmPothole i s)) = currentSession (markFalsePositive i s)
   \<and> currentSession (confirmPothole i (markFalsePositive i s)) = currentSession (confirmPothole i s)
   \<and> reactive_counts (confirmPothole i (reactive_counts (confirmPothole i s)))
       = reactive_counts (confirmPothole i s)
   \<and> reactive_counts (markFalsePositive i (reactive_counts (markFalsePositive i s)))
       = reactive_counts (markFalsePositive i s)
   \<and> find (\<lambda>e. e_id e = i) (session_events (confirmPothole i s))
       = map_option (\<lambda>e. e\<lparr>e_userConfirmed := Some True, e_label := pothole_confirmed\<rparr>)
           (find (\<lambda>e. e_id e = i) (session_events s))
   \<and> find (\<lambda>e. e_id e = i) (session_events (markFalsePositive i s))
       = map_option (\<lambda>e. e\<lparr>e_userConfirmed := Some False, e_label := false_positive\<rparr>)
           (find (\<lambda>e. e_id e = i) (session_events s))
   \<and> find (\<lambda>e. e_id e = i) (session_events (markFalsePositive i (confirmPothole i s)))
       = map_option (\<lambda>e. e\<lparr>e_userConfirmed := Some False, e_label := false_positive\<rparr>)
           (find (\<lambda>e. e_id e = i) (session_events s))
   \<and> find (\<lambda>e. e_id e = i) (session_events (confirmPothole i (markFalsePositive i s)))
       = map_option (\<lambda>e. e\<lparr>e_userConfirmed := Some True, e_label := pothole_confirmed\<rparr>)
           (find (\<lambda>e. e_id e = i) (session_events s))
   \<and> filter (\<lambda>e. e_id e \<noteq> i) (session_events (confirmPothole i s))
       = filter (\<lambda>e. e_id e \<noteq> i) (session_events s)
   \<and> filter (\<lambda>e. e_id e \<noteq> i) (session_events (markFalsePositive i s))
       = filter (\<lambda>e. e_id e \<noteq> i) (session_events s)
   \<and> list_all2 (\<lambda>e e'. e_userConfirmed e \<noteq> None \<longrightarrow> e_userConfirmed e' \<noteq> None)
         (session_events s) (session_events (confirmPothole i s))
   \<and> list_all2 (\<lambda>e e'. e_userConfirmed e \<noteq> None \<longrightarrow> e_userConfirmed e' \<noteq> None)
         (session_events s) (session_events (markFalsePositive i s))"
proof -
  have sess: "currentSession (confirmPothole i (confirmPothole i s)) = currentSession (confirmPothole i s)"
    "currentSession (markFalsePositive i (markFalsePositive i s)) = currentSession (markFalsePositive i s)"
    "currentSession (markFalsePositive i (confirmPothole i s)) = currentSession (markFalsePositive i s)"
    "currentSession (confirmPothole i (markFalsePositive i s)) = currentSession (confirmPothole i s)"
    by (cases "currentSession s"; simp add: confirm_session reject_session update_first_twice)+
  have flush: "reactive_counts (confirmPothole i (reactive_counts (confirmPothole i s)))
       = reactive_counts (confirmPothole i s)"
    "reactive_counts (markFalsePositive i (reactive_counts (markFalsePositive i s)))
       = reactive_counts (markFalsePositive i s)"
    by (auto simp: confirmPothole_def markFalsePositive_def reactive_counts_def find_update_first
        update_first_twice split: option.splits)
  have eff: "find (\<lambda>e. e_id e = i) (session_events (confirmPothole i s))
       = map_option (\<lambda>e. e\<lparr>e_userConfirmed := Some True, e_label := pothole_confirmed\<rparr>)
           (find (\<lambda>e. e_id e = i) (session_events s))"
    "find (\<lambda>e. e_id e = i) (session_events (markFalsePositive i s))
       = map_option (\<lambda>e. e\<lparr>e_userConfirmed := Some False, e_label := false_positive\<rparr>)
           (find (\<lambda>e. e_id e = i) (session_events s))"
    for s
    by (simp_all add: confirm_events reject_events find_update_first)
  have comp: "find (\<lambda>e. e_id e = i) (session_events (markFalsePositive i (confirmPothole i s)))
       = map_option (\<lambda>e. e\<lparr>e_userConfirmed := Some False, e_label := false_positive\<rparr>)
           (find (\<lambda>e. e_id e = i) (session_events s))"
    "find (\<lambda>e. e_id e = i) (session_events (confirmPothole i (markFalsePositive i s)))
       = map_option (\<lambda>e. e\<lparr>e_userConfirmed := Some True, e_label := pothole_confirmed\<rparr>)
           (find (\<lambda>e. e_id e = i) (session_events s))"
    by (simp_all add: eff option.map_comp comp_def)
  have others: "filter (\<lambda>e. e_id e \<noteq> i) (session_events (confirmPothole i s))
       = filter (\<lambda>e. e_id e \<noteq> i) (session_events s)"
    "filter (\<lambda>e. e_id e \<noteq> i) (session_events (markFalsePositive i s))
       = filter (\<lambda>e. e_id e \<noteq> i) (session_events s)"
    by (simp_all add: confirm_events reject_events update_first_others)
  have keep: "list_all2 (\<lambda>e e'. e_userConfirmed e \<noteq> None \<longrightarrow> e_userConfirmed e' \<noteq> None)
         (session_events s) (session_events (confirmPothole i s))"
    "list_all2 (\<lambda>e e'. e_userConfirmed e \<noteq> None \<longrightarrow> e_userConfirmed e' \<noteq> None)
         (session_events s) (session_events (markFalsePositive i s))"
    unfolding confirm_events reject_events by (rule update_first_rel; simp)+
  show ?thesis
    by (intro conjI sess flush eff comp others keep)
qed

text \<open>
  C2 at the one event of \<open>logged_page\<close>: confirmed, it is resolved; rejected
  afterwards, it is rejected and still resolved.
\<close>

theorem confirmation_last_call_wins_witness:
  "map e_userConfirmed (session_events (confirmPothole ''e1'' logged_page)) = [Some True]
   \<and> find (\<lambda>e. e_id e = ''e1'') (session_events (confirmPothole ''e1'' logged_page))
       = Some \<lparr>e_id = ''e1'', e_timestamp = 3000, e_accelerometer = high_reading,
           e_location = fix_a, e_speed = None, e_label = pothole_confirmed,
           e_userConfirmed = Some True, e_severity = High\<rparr>
   \<and> find (\<lambda>e. e_id e = ''e1'')
         (session_events (markFalsePositive ''e1'' (confirmPothole ''e1'' logged_page)))
       = Some \<lparr>e_id = ''e1'', e_timestamp = 3000, e_accelerometer = high_reading,
           e_location = fix_a, e_speed = None, e_label = false_positive,
           e_userConfirmed = Some False, e_severity = High\<rparr>
   \<and> map e_userConfirmed
         (session_events (markFalsePositive ''e1'' (confirmPothole ''e1'' logged_page)))
       = [Some False]"
proof -
  have ev: "session_events logged_page
       = [\<lparr>e_id = ''e1'', e_timestamp = 3000, e_accelerometer = high_reading,
           e_location = fix_a, e_speed = None, e_label = pothole_detected,
           e_userConfirmed = None, e_severity = High\<rparr>]"
    by (simp add: session_events_def logged_page_session)
  show ?thesis
    using confirmation_last_call_wins [of "''e1''" logged_page]
      confirmation_last_call_wins [of "''e1''" "confirmPothole ''e1'' logged_page"]
    by (simp add: ev confirm_events reject_events)
qed


text \<open>
  Claim C2 as stated fails: the one event of \<open>logged_page\<close> is confirmed by
  \<open>confirmPothole\<close>, and \<open>markFalsePositive\<close> then moves it to rejected.
\<close>

theorem reject_after_confirm_counterexample:
  "map e_userConfirmed (session_events (confirmPothole ''e1'' logged_page)) = [Some True]
   \<and> map e_userConfirmed (session_events (markFalsePositive ''e1'' (confirmPothole ''e1'' logged_page)))
       = [Some False]"
  by (simp add: logged_page_eq located_page_eq active_page_eq ready_page_eq initial_page_def
      confirmPothole_def markFalsePositive_def session_events_def)

section \<open>Runs\<close>

lemma run_append: "run (as @ bs) s = run bs (run as s)"
  by (induction as arbitrary: s) auto

lemma run_invariant:
  "P s \<Longrightarrow> (\<And>a t. P t \<Longrightarrow> P (reactive_counts (perform a t))) \<Longrightarrow> P (run as s)"
  by (induction as arbitrary: s) auto

lemma reactive_counts_session [simp]: "currentSession (reactive_counts s) = currentSession s"
  by (simp add: reactive_counts_def split: option.splits)

lemma reactive_counts_location [simp]: "currentLocation (reactive_counts s) = currentLocation s"
  by (simp add: reactive_counts_def split: option.splits)

lemma reactive_counts_events [simp]: "session_events (reactive_counts s) = session_events s"
  by (simp add: session_events_def)

section \<open>Session lifecycle\<close>

lemma status_matches_session:
  "(sessionStatus (run as initial_page) = Active) = (currentSession (run as initial_page) \<noteq> None)"
proof -
  let ?P = "\<lambda>s::page. (sessionStatus s = Active) = (currentSession s \<noteq> None)"
  have "?P (run as initial_page)"
  proof (rule run_invariant)
    show "?P initial_page" by (simp add: initial_page_def)
  next
    fix a t assume t: "?P t"
    have "?P (perform a t)"
      using t
      by (cases a) (auto simp: startSession_def stopSession_def handleAccelerometerData_def
          handleLocationData_def confirmPothole_def markFalsePositive_def Let_def
          split: option.splits if_splits)
    then show "?P (reactive_counts (perform a t))"
      by (simp add: reactive_counts_def split: option.splits)
  qed
  then show ?thesis .
qed

text \<open>
  Claim C3, as the code has it. \<open>stopSession\<close> without a current session exports
  nothing and returns the state as it was; in every run from the initial page that is
  the case whenever the status is not active. \<open>startSession\<close> has three guards, the two
  permissions and the two route endpoints, and none on the session: when the guards
  hold it installs a fresh, empty session whatever the current session is, and when one
  fails it shows an alert and changes nothing. Both functions are total.
\<close>

theorem lifecycle_guards:
  "(currentSession s = None \<longrightarrow> stopSession now s = (None, s))
   \<and> (sessionStatus (run as initial_page) \<noteq> Active \<longrightarrow>
        stopSession now (run as initial_page) = (None, run as initial_page))
   \<and> (p_accelerometer (permissionDetails s) \<and> p_location (permissionDetails s)
       \<and> startCoords s \<noteq> None \<and> destinationCoords s \<noteq> None
       \<longrightarrow> (\<exists>s'. startSession now newId s = Inr s'
                \<and> sessionStatus s' = Active
                \<and> currentSession s' = Some \<lparr>s_id = newId, s_startTime = now, s_endTime = None,
                                            s_events = [], s_totalDistance = Num 0,
                                            s_averageSpeed = Num 0\<rparr>))
   \<and> (\<not> (p_accelerometer (permissionDetails s) \<and> p_location (permissionDetails s)
          \<and> startCoords s \<noteq> None \<and> destinationCoords s \<noteq> None)
       \<longrightarrow> (\<exists>alert. startSession now newId s = Inl alert))"
proof -
  have "stopSession now t = (None, t)" if "currentSession t = None" for t
    using that by (simp add: stopSession_def)
  then show ?thesis
    using status_matches_session [of as] by (auto simp: startSession_def)
qed

text \<open>
  The three cases of C3 at concrete states: no session, an active session with the
  guards satisfied, and a missing permission.
\<close>

theorem lifecycle_guards_witness:
  "currentSession initial_page = None
   \<and> stopSession 7 initial_page = (None, initial_page)
   \<and> sessionStatus (run [StopSession 3] initial_page) = Idle
   \<and> stopSession 7 (run [StopSession 3] initial_page) = (None, run [StopSession 3] initial_page)
   \<and> p_accelerometer (permissionDetails logged_page) \<and> p_location (permissionDetails logged_page)
   \<and> startCoords logged_page \<noteq> None \<and> destinationCoords logged_page \<noteq> None
   \<and> sessionStatus logged_page = Active
   \<and> (\<exists>s'. startSession 9000 ''s2'' logged_page = Inr s'
          \<and> sessionStatus s' = Active
          \<and> currentSession s' = Some \<lparr>s_id = ''s2'', s_startTime = 9000, s_endTime = None,
                                      s_events = [], s_totalDistance = Num 0,
                                      s_averageSpeed = Num 0\<rparr>)
   \<and> p_accelerometer (permissionDetails initial_page) = False
   \<and> (\<exists>alert. startSession 7 ''s0'' initial_page = Inl alert)"
proof -
  have a: "currentSession initial_page = None"
    "p_accelerometer (permissionDetails initial_page) = False"
    by (simp_all add: initial_page_def)
  have b: "p_accelerometer (permissionDetails logged_page)" "p_location (permissionDetails logged_page)"
    "startCoords logged_page \<noteq> None" "destinationCoords logged_page \<noteq> None"
    "sessionStatus logged_page = Active"
    by (simp_all add: logged_page_eq located_page_eq active_page_eq ready_page_eq initial_page_def)
  have c: "sessionStatus (run [StopSession 3] initial_page) = Idle"
    by (simp add: initial_page_def stopSession_def reactive_counts_def)
  show ?thesis
    using a b c lifecycle_guards [of initial_page 7 "[StopSession 3]" "''s0''"]
      lifecycle_guards [of logged_page 9000 "[]" "''s2''"]
    by simp
qed

text \<open>
  Claim C3 as stated fails: in \<open>logged_page\<close> the session \<open>s1\<close> is active and holds one
  event; \<open>startSession\<close> is not rejected and replaces it by the empty session \<open>s2\<close>.
\<close>

theorem start_while_active_counterexample:
  "sessionStatus logged_page = Active
   \<and> map e_id (session_events logged_page) = [''e1'']
   \<and> map_option s_id (currentSession logged_page) = Some ''s1''
   \<and> startSession 9000 ''s2'' logged_page
       = Inr (logged_page\<lparr>sessionStartTime := 9000,
                currentSession := Some \<lparr>s_id = ''s2'', s_startTime = 9000, s_endTime = None,
                                         s_events = [], s_totalDistance = Num 0,
                                         s_averageSpeed = Num 0\<rparr>,
                eventsCount := 0\<rparr>)"
  by (simp add: logged_page_eq located_page_eq active_page_eq ready_page_eq initial_page_def
      startSession_def session_events_def)

section \<open>Candidates without a location\<close>

lemma run_no_fix:
  "currentLocation s = None \<Longrightarrow> \<forall>a\<in>set as. \<not> is_location_fix a \<Longrightarrow>
   currentLocation (run as s) = None"
proof (induction as arbitrary: s)
  case Nil
  then show ?case by simp
next
  case (Cons a as)
  from Cons.prems have "currentLocation (perform a s) = None"
    by (cases a) (auto simp: startSession_def stopSession_def handleAccelerometerData_def
        confirmPothole_def markFalsePositive_def Let_def split: option.splits)
  with Cons show ?case by simp
qed

text \<open>
  When no current location is known, \<open>handleAccelerometerData\<close> leaves the current
  session, and so its event list, unchanged, whatever the reading. In particular this
  is so after every run from the initial page in which no location fix has arrived at
  all.
\<close>


lemma candidate_without_location_discarded:
  "(currentLocation s = None \<longrightarrow>
      currentSession (handleAccelerometerData newId reading s) = currentSession s)
   \<and> ((\<forall>a\<in>set as. \<not> is_location_fix a) \<longrightarrow>
      currentSession (handleAccelerometerData newId reading (run as initial_page))
        = currentSession (run as initial_page))"
proof -
  have 1: "currentSession (handleAccelerometerData newId reading t) = currentSession t"
    if "currentLocation t = None" for t
    using that by (simp add: handleAccelerometerData_def Let_def)
  have "currentLocation initial_page = None" by (simp add: initial_page_def)
  then show ?thesis using 1 run_no_fix by blast
qed

lemma active_page_run:
  "run [PermissionsResult \<lparr>p_accelerometer = True, p_location = True\<rparr>,
        StartCoords (Some (Num 0, Num 0)), DestinationCoords (Some (Num 0, Num 1)),
        StartSession 1000 ''s1''] initial_page = active_page"
  unfolding active_page_def ready_page_def
  by (simp only: run.simps)

text \<open>
  The same at an active session without location and the candidate \<open>(0, 0, 30)\<close>.
\<close>


lemma candidate_without_location_discarded_example:
  "currentLocation active_page = None
   \<and> sessionStatus active_page = Active
   \<and> detectPothole high_reading
   \<and> currentSession (handleAccelerometerData ''e1'' high_reading active_page)
       = currentSession active_page
   \<and> filter is_location_fix
        [PermissionsResult \<lparr>p_accelerometer = True, p_location = True\<rparr>,
         StartCoords (Some (Num 0, Num 0)), DestinationCoords (Some (Num 0, Num 1)),
         StartSession 1000 ''s1''] = []
   \<and> sessionStatus
        (run [PermissionsResult \<lparr>p_accelerometer = True, p_location = True\<rparr>,
              StartCoords (Some (Num 0, Num 0)), DestinationCoords (Some (Num 0, Num 1)),
              StartSession 1000 ''s1''] initial_page) = Active
   \<and> currentSession (handleAccelerometerData ''e1'' high_reading
         (run [PermissionsResult \<lparr>p_accelerometer = True, p_location = True\<rparr>,
               StartCoords (Some (Num 0, Num 0)), DestinationCoords (Some (Num 0, Num 1)),
               StartSession 1000 ''s1''] initial_page))
       = currentSession
           (run [PermissionsResult \<lparr>p_accelerometer = True, p_location = True\<rparr>,
                 StartCoords (Some (Num 0, Num 0)), DestinationCoords (Some (Num 0, Num 1)),
                 StartSession 1000 ''s1''] initial_page)"
proof -
  have a: "currentLocation active_page = None" "sessionStatus active_page = Active"
    by (simp_all add: active_page_eq ready_page_eq initial_page_def)
  show ?thesis
    unfolding active_page_run
    using a high_reading_candidate
      candidate_without_location_discarded [of active_page "''e1''" high_reading
        "[PermissionsResult \<lparr>p_accelerometer = True, p_location = True\<rparr>,
         StartCoords (Some (Num 0, Num 0)), DestinationCoords (Some (Num 0, Num 1)),
         StartSession 1000 ''s1'']", unfolded active_page_run]
    by simp
qed

section \<open>Average speed\<close>

lemma session_fresh_invariant:
  "currentSession (run as initial_page) = Some cs \<Longrightarrow>
   s_averageSpeed cs = Num 0 \<and> s_endTime cs = None"
proof -
  let ?P = "\<lambda>s::page. \<forall>cs. currentSession s = Some cs \<longrightarrow> s_averageSpeed cs = Num 0 \<and> s_endTime cs = None"
  have "?P (run as initial_page)"
  proof (rule run_invariant)
    show "?P initial_page" by (simp add: initial_page_def)
  next
    fix a t assume t: "?P t"
    have "?P (perform a t)"
      using t
      by (cases a) (auto simp: startSession_def stopSession_def handleAccelerometerData_def
          handleLocationData_def confirmPothole_def markFalsePositive_def Let_def
          split: option.splits if_splits)
    then show "?P (reactive_counts (perform a t))" by simp
  qed
  then show "currentSession (run as initial_page) = Some cs \<Longrightarrow>
   s_averageSpeed cs = Num 0 \<and> s_endTime cs = None" by simp
qed

text \<open>
  Claim C5. \<open>stopSession\<close> on a current session hands over a session whose end time is
  now, whose distance is the accumulated distance, and whose average speed is that
  distance divided by the duration in minutes, times 60, when the duration is positive,
  and 0 otherwise; afterwards there is no current session. It is the only assignment:
  in every run from the initial page a current session still has the average speed 0
  and no end time it was created with.
\<close>

theorem averageSpeed_at_end:
  "(currentSession s = Some cs \<longrightarrow>
      (\<exists>finished s'. stopSession now s = (Some finished, s')
         \<and> currentSession s' = None
         \<and> s_endTime finished = Some now
         \<and> s_totalDistance finished = totalDistance s
         \<and> s_averageSpeed finished =
             (if 0 < real_of_int (now - s_startTime cs) / 1000 / 60
              then jmul (jdiv (s_totalDistance finished)
                              (Num (real_of_int (now - s_startTime cs) / 1000 / 60)))
                        (Num 60)
              else Num 0)
         \<and> (\<forall>d. totalDistance s = Num d \<longrightarrow>
               s_averageSpeed finished =
                 Num (if 0 < real_of_int (now - s_startTime cs) / 1000 / 60
                      then d / (real_of_int (now - s_startTime cs) / 1000 / 60) * 60
                      else 0))))
   \<and> (currentSession (run as initial_page) = Some cs' \<longrightarrow>
        s_averageSpeed cs' = Num 0 \<and> s_endTime cs' = None)"
proof -
  have "\<exists>finished s'. stopSession now s = (Some finished, s')
         \<and> currentSession s' = None
         \<and> s_endTime finished = Some now
         \<and> s_totalDistance finished = totalDistance s
         \<and> s_averageSpeed finished =
             (if 0 < real_of_int (now - s_startTime cs) / 1000 / 60
              then jmul (jdiv (s_totalDistance finished)
                              (Num (real_of_int (now - s_startTime cs) / 1000 / 60)))
                        (Num 60)
              else Num 0)
         \<and> (\<forall>d. totalDistance s = Num d \<longrightarrow>
               s_averageSpeed finished =
                 Num (if 0 < real_of_int (now - s_startTime cs) / 1000 / 60
                      then d / (real_of_int (now - s_startTime cs) / 1000 / 60) * 60
                      else 0))"
    if "currentSession s = Some cs"
    using that by (auto simp: stopSession_def Let_def)
  then show ?thesis using session_fresh_invariant by blast
qed

text \<open>
  C5 at \<open>logged_page\<close>, stopped two minutes after the start.
\<close>

theorem averageSpeed_at_end_witness:
  "currentSession logged_page =
     Some \<lparr>s_id = ''s1'', s_startTime = 1000, s_endTime = None,
        s_events = [\<lparr>e_id = ''e1'', e_timestamp = 3000, e_accelerometer = high_reading,
           e_location = fix_a, e_speed = None, e_label = pothole_detected,
           e_userConfirmed = None, e_severity = High\<rparr>],
        s_totalDistance = Num 0, s_averageSpeed = Num 0\<rparr>
   \<and> totalDistance logged_page = Num 0
   \<and> (\<exists>finished s'. stopSession 121000 logged_page = (Some finished, s')
         \<and> currentSession s' = None
         \<and> s_endTime finished = Some 121000
         \<and> s_totalDistance finished = Num 0
         \<and> s_averageSpeed finished = jmul (jdiv (Num 0) (Num 2)) (Num 60)
         \<and> s_averageSpeed finished = Num 0)"
proof -
  have "currentSession
     (run [PermissionsResult \<lparr>p_accelerometer = True, p_location = True\<rparr>,
        StartCoords (Some (Num 0, Num 0)), DestinationCoords (Some (Num 0, Num 1)),
        StartSession 1000 ''s1'', LocationFix fix_a, AccelerometerData ''e1'' high_reading]
     initial_page) = currentSession logged_page"
    by (simp only: logged_page_run)
  then show ?thesis
    using logged_page_session
      averageSpeed_at_end [of logged_page
        "\<lparr>s_id = ''s1'', s_startTime = 1000, s_endTime = None,
        s_events = [\<lparr>e_id = ''e1'', e_timestamp = 3000, e_accelerometer = high_reading,
           e_location = fix_a, e_speed = None, e_label = pothole_detected,
           e_userConfirmed = None, e_severity = High\<rparr>],
        s_totalDistance = Num 0, s_averageSpeed = Num 0\<rparr>" 121000
        "[PermissionsResult \<lparr>p_accelerometer = True, p_location = True\<rparr>,
        StartCoords (Some (Num 0, Num 0)), DestinationCoords (Some (Num 0, Num 1)),
        StartSession 1000 ''s1'', LocationFix fix_a, AccelerometerData ''e1'' high_reading]"
        "\<lparr>s_id = ''s1'', s_startTime = 1000, s_endTime = None,
        s_events = [\<lparr>e_id = ''e1'', e_timestamp = 3000, e_accelerometer = high_reading,
           e_location = fix_a, e_speed = None, e_label = pothole_detected,
           e_userConfirmed = None, e_severity = High\<rparr>],
        s_totalDistance = Num 0, s_averageSpeed = Num 0\<rparr>"]
    by auto
qed

section \<open>Logged events\<close>

lemma handleAccelerometerData_appends:
  "\<exists>new. session_events (handleAccelerometerData newId reading s) = session_events s @ new
     \<and> (\<forall>e\<in>set new. e_accelerometer e = reading
            \<and> e_severity e = calculateSeverity (e_accelerometer e)
            \<and> detectPothole (e_accelerometer e)
            \<and> e_userConfirmed e = None \<and> e_label e = pothole_detected)"
  by (auto simp: handleAccelerometerData_def session_events_def Let_def split: option.splits)

lemma handleAccelerometerData_rev2_appends:
  "\<exists>new. session_events (handleAccelerometerData_rev2 newId reading s) = session_events s @ new
     \<and> (\<forall>e\<in>set new. e_accelerometer e = reading
            \<and> e_severity e = calculateSeverity (e_accelerometer e)
            \<and> e_severity e \<noteq> Low
            \<and> detectPothole (e_accelerometer e)
            \<and> e_userConfirmed e = None \<and> e_label e = pothole_detected)"
  by (auto simp: handleAccelerometerData_rev2_def session_events_def Let_def split: option.splits)

lemma handleAccelerometerData_rev2_no_location:
  "currentLocation s = None \<Longrightarrow>
   currentSession (handleAccelerometerData_rev2 newId reading s) = currentSession s"
  by (simp add: handleAccelerometerData_rev2_def Let_def)

lemma update_first_set:
  "e' \<in> set (update_first P f es) \<Longrightarrow> e' \<in> set es \<or> (\<exists>e\<in>set es. e' = f e)"
  by (induction es) (auto split: if_splits)


lemma location_events: "session_events (handleLocationData location s) = session_events s"
  by (simp add: handleLocationData_def session_events_def Let_def split: option.splits)

lemma events_classified:
  "e \<in> set (session_events (run as initial_page)) \<Longrightarrow>
   e_severity e = calculateSeverity (e_accelerometer e) \<and> detectPothole (e_accelerometer e)"
proof -
  let ?Q = "\<lambda>e::PotholeEvent. e_severity e = calculateSeverity (e_accelerometer e)
              \<and> detectPothole (e_accelerometer e)"
  let ?P = "\<lambda>s::page. \<forall>e\<in>set (session_events s). ?Q e"
  have "?P (run as initial_page)"
  proof (rule run_invariant)
    show "?P initial_page" by (simp add: initial_page_def session_events_def)
  next
    fix a t assume t: "?P t"
    have "?P (perform a t)"
    proof (cases a)
      case (AccelerometerData newId reading)
      obtain new where "session_events (handleAccelerometerData newId reading t) = session_events t @ new"
        "\<forall>e\<in>set new. ?Q e"
        using handleAccelerometerData_appends [of newId reading t] by auto
      with t AccelerometerData show ?thesis by auto
    next
      case (ConfirmPothole i)
      with t show ?thesis by (auto simp: confirm_events dest!: update_first_set)
    next
      case (MarkFalsePositive i)
      with t show ?thesis by (auto simp: reject_events dest!: update_first_set)
    next
      case (LocationFix l)
      with t show ?thesis by (simp add: location_events)
    qed (use t in \<open>auto simp: session_events_def startSession_def stopSession_def Let_def
          split: option.splits if_splits\<close>)
    then show "?P (reactive_counts (perform a t))" by simp
  qed
  then show "e \<in> set (session_events (run as initial_page)) \<Longrightarrow> ?Q e" by blast
qed

text \<open>
  Claim C10. \<open>handleAccelerometerData\<close> keeps the events of the session and appends at
  most new ones, each holding the reading itself, the severity \<open>calculateSeverity\<close>
  gives that reading, a reading that \<open>detectPothole\<close> accepts, and the pending
  confirmation fields. In every run from the initial page every event of the session
  has the severity of its stored reading, and that reading is a candidate. Confirming,
  rejecting, a location fix and the reactive block leave what each event stores of its
  detection as it was.
\<close>

theorem logged_events_classified:
  "(\<exists>new. session_events (handleAccelerometerData newId reading s) = session_events s @ new
      \<and> (\<forall>e\<in>set new. e_accelerometer e = reading
            \<and> e_severity e = calculateSeverity (e_accelerometer e)
            \<and> detectPothole (e_accelerometer e)
            \<and> e_userConfirmed e = None \<and> e_label e = pothole_detected))
   \<and> (\<forall>e\<in>set (session_events (run as initial_page)).
         e_severity e = calculateSeverity (e_accelerometer e) \<and> detectPothole (e_accelerometer e))
   \<and> map stored_detection (session_events (confirmPothole i s)) = map stored_detection (session_events s)
   \<and> map stored_detection (session_events (markFalsePositive i s)) = map stored_detection (session_events s)
   \<and> session_events (handleLocationData location s) = session_events s
   \<and> session_events (reactive_counts s) = session_events s"
proof -
  have c: "map stored_detection (session_events (confirmPothole i s)) = map stored_detection (session_events s)"
    by (simp add: confirm_events update_first_map stored_detection_def)
  have r: "map stored_detection (session_events (markFalsePositive i s)) = map stored_detection (session_events s)"
    by (simp add: reject_events update_first_map stored_detection_def)
  show ?thesis
    using handleAccelerometerData_appends [of newId reading s] events_classified [of _ as] c r
    by (simp add: location_events)
qed

text \<open>
  C10 at the reading \<open>(0, 0, 30)\<close> arriving in \<open>located_page\<close>, and at the
  confirmation of the event it creates.
\<close>

theorem logged_events_classified_witness:
  "session_events located_page = []
   \<and> session_events (handleAccelerometerData ''e1'' high_reading located_page)
       = [\<lparr>e_id = ''e1'', e_timestamp = 3000, e_accelerometer = high_reading,
           e_location = fix_a, e_speed = None, e_label = pothole_detected,
           e_userConfirmed = None, e_severity = High\<rparr>]
   \<and> calculateSeverity high_reading = High
   \<and> detectPothole high_reading
   \<and> session_events logged_page
       = [\<lparr>e_id = ''e1'', e_timestamp = 3000, e_accelerometer = high_reading,
           e_location = fix_a, e_speed = None, e_label = pothole_detected,
           e_userConfirmed = None, e_severity = High\<rparr>]
   \<and> map stored_detection (session_events (confirmPothole ''e1'' logged_page))
       = [(''e1'', 3000, high_reading, fix_a, None, High)]"
proof -
  have ev: "session_events logged_page
       = [\<lparr>e_id = ''e1'', e_timestamp = 3000, e_accelerometer = high_reading,
           e_location = fix_a, e_speed = None, e_label = pothole_detected,
           e_userConfirmed = None, e_severity = High\<rparr>]"
    by (simp add: session_events_def logged_page_session)
  have l: "session_events located_page = []"
    by (simp add: session_events_def located_page_eq active_page_eq)
  have h: "session_events (handleAccelerometerData ''e1'' high_reading located_page)
       = [\<lparr>e_id = ''e1'', e_timestamp = 3000, e_accelerometer = high_reading,
           e_location = fix_a, e_speed = None, e_label = pothole_detected,
           e_userConfirmed = None, e_severity = High\<rparr>]"
    using ev by (simp add: logged_page_def)
  show ?thesis
    using ev l h
      logged_events_classified [of "''e1''" high_reading located_page
        "[PermissionsResult \<lparr>p_accelerometer = True, p_location = True\<rparr>,
        StartCoords (Some (Num 0, Num 0)), DestinationCoords (Some (Num 0, Num 1)),
        StartSession 1000 ''s1'', LocationFix fix_a, AccelerometerData ''e1'' high_reading]"
        "''e1''" fix_b]
      logged_events_classified [of "''e2''" low_reading logged_page "[]" "''e1''" fix_b]
    by (simp add: logged_page_run stored_detection_def)
qed

section \<open>Distance\<close>

lemma distance_a_b:
  "calculateDistance (Num 0) (Num 0) (Num 0) (Num 180) = Num (6371000 * pi)"
  by (simp add: calculateDistance_def Math_PI_def atan2_def Let_def)

lemma haversine_range:
  fixes p1 p2 dl :: real
  assumes "- (pi / 2) \<le> p1" "p1 \<le> pi / 2" "- (pi / 2) \<le> p2" "p2 \<le> pi / 2"
  shows "0 \<le> sin ((p2 - p1) / 2) * sin ((p2 - p1) / 2) + cos p1 * cos p2 * sin (dl / 2) * sin (dl / 2)"
    and "sin ((p2 - p1) / 2) * sin ((p2 - p1) / 2) + cos p1 * cos p2 * sin (dl / 2) * sin (dl / 2) \<le> 1"
proof -
  define A where "A = sin ((p2 - p1) / 2) * sin ((p2 - p1) / 2)"
  define B where "B = cos p1 * cos p2"
  define S where "S = sin (dl / 2) * sin (dl / 2)"
  have c1: "0 \<le> cos p1" using assms by (intro cos_ge_zero) auto
  have c2: "0 \<le> cos p2" using assms by (intro cos_ge_zero) auto
  have B0: "0 \<le> B" unfolding B_def using c1 c2 by simp
  have S0: "0 \<le> S" unfolding S_def by simp
  have S1: "S \<le> 1"
    unfolding S_def using sin_squared_eq [of "dl / 2"] by (simp add: power2_eq_square)
  have A0: "0 \<le> A" unfolding A_def by simp
  have BS0: "0 \<le> B * S" using B0 S0 by (rule mult_nonneg_nonneg)
  have BS1: "B * S \<le> B" using mult_left_mono [OF S1 B0] by simp
  have "2 * ((p2 - p1) / 2) = p2 - p1" by simp
  then have "cos (p2 - p1) = 1 - 2 * (sin ((p2 - p1) / 2))\<^sup>2"
    using cos_double_sin [of "(p2 - p1) / 2"] by (simp only:)
  then have h: "cos (p2 - p1) = 1 - 2 * A" by (simp add: power2_eq_square A_def)
  have "cos (p2 - p1) = B + sin p1 * sin p2" by (simp add: cos_diff B_def mult.commute)
  moreover have "cos (p1 + p2) = B - sin p1 * sin p2" by (simp add: cos_add B_def)
  moreover have "cos (p1 + p2) \<le> 1" by (rule cos_le_one)
  ultimately have AB: "A + B \<le> 1" using h by linarith
  have eq: "sin ((p2 - p1) / 2) * sin ((p2 - p1) / 2) + cos p1 * cos p2 * sin (dl / 2) * sin (dl / 2)
      = A + B * S"
    by (simp add: A_def B_def S_def mult.assoc)
  show "0 \<le> sin ((p2 - p1) / 2) * sin ((p2 - p1) / 2) + cos p1 * cos p2 * sin (dl / 2) * sin (dl / 2)"
    unfolding eq using A0 BS0 by linarith
  show "sin ((p2 - p1) / 2) * sin ((p2 - p1) / 2) + cos p1 * cos p2 * sin (dl / 2) * sin (dl / 2) \<le> 1"
    unfolding eq using AB BS1 by linarith
qed

lemma atan2_nonneg: "0 \<le> b \<Longrightarrow> 0 \<le> a \<Longrightarrow> 0 \<le> atan2 b a"
  by (auto simp: atan2_def arctan_le_zero_iff not_le zero_le_arctan_iff)

lemma calculateDistance_valid:
  assumes "- 90 \<le> la1" "la1 \<le> 90" "- 90 \<le> la2" "la2 \<le> 90"
  shows "\<exists>d. calculateDistance (Num la1) (Num lo1) (Num la2) (Num lo2) = Num d \<and> 0 \<le> d"
proof -
  define p1 where "p1 = la1 * pi / 180"
  define p2 where "p2 = la2 * pi / 180"
  define dl where "dl = (lo2 - lo1) * pi / 180"
  define a where "a = sin ((p2 - p1) / 2) * sin ((p2 - p1) / 2)
                      + cos p1 * cos p2 * sin (dl / 2) * sin (dl / 2)"
  have r: "- (pi / 2) \<le> p1" "p1 \<le> pi / 2" "- (pi / 2) \<le> p2" "p2 \<le> pi / 2"
  proof -
    have m: "- (pi / 2) \<le> x * pi / 180 \<and> x * pi / 180 \<le> pi / 2"
      if "- 90 \<le> x" "x \<le> 90" for x :: real
    proof -
      have "pi * (- 90) \<le> pi * x" "pi * x \<le> pi * 90"
        using that by (intro mult_left_mono; simp)+
      then show ?thesis by (simp add: field_simps)
    qed
    show "- (pi / 2) \<le> p1" "p1 \<le> pi / 2" "- (pi / 2) \<le> p2" "p2 \<le> pi / 2"
      unfolding p1_def p2_def using m assms by blast+
  qed
  have a0: "0 \<le> a" and a1: "a \<le> 1"
    unfolding a_def using haversine_range [OF r] by blast+
  have dp: "(la2 - la1) * pi / 180 = p2 - p1"
    by (simp add: p1_def p2_def field_simps)
  have "calculateDistance (Num la1) (Num lo1) (Num la2) (Num lo2)
          = jmul (Num 6371000) (jmul (Num 2) (jatan2 (jsqrt (Num a)) (jsqrt (jsub (Num 1) (Num a)))))"
    unfolding calculateDistance_def Math_PI_def Let_def
    by (simp add: dp p1_def [symmetric] p2_def [symmetric] dl_def [symmetric] a_def mult.assoc)
  also have "\<dots> = Num (6371000 * (2 * atan2 (sqrt a) (sqrt (1 - a))))"
    using a0 a1 by (simp add: not_less [symmetric])
  finally have e: "calculateDistance (Num la1) (Num lo1) (Num la2) (Num lo2)
      = Num (6371000 * (2 * atan2 (sqrt a) (sqrt (1 - a))))" .
  have "0 \<le> atan2 (sqrt a) (sqrt (1 - a))"
    using a0 a1 by (intro atan2_nonneg) simp_all
  then have "0 \<le> 6371000 * (2 * atan2 (sqrt a) (sqrt (1 - a)))" by simp
  with e show ?thesis by blast
qed

lemma handleLocationData_unchanged:
  "lastLocation s = None \<or> currentSession s = None \<Longrightarrow>
   totalDistance (handleLocationData location s) = totalDistance s"
  by (auto simp: handleLocationData_def Let_def split: option.splits)

lemma handleLocationData_mono:
  assumes "valid_fix location"
    and "\<And>p. lastLocation s = Some p \<Longrightarrow> valid_fix p"
    and "totalDistance s = Num t"
  shows "\<exists>t'. totalDistance (handleLocationData location s) = Num t' \<and> t \<le> t'"
proof (cases "lastLocation s = None \<or> currentSession s = None")
  case True
  then show ?thesis using assms(3) handleLocationData_unchanged [of s location] by simp
next
  case False
  then obtain p cs where p: "lastLocation s = Some p" and cs: "currentSession s = Some cs" by auto
  from assms(2) [OF p] obtain la1 lo1 where l1: "l_latitude p = Num la1" "l_longitude p = Num lo1"
    "- 90 \<le> la1" "la1 \<le> 90"
    by (auto simp: valid_fix_def split: jsnum.splits)
  from assms(1) obtain la2 lo2 where l2: "l_latitude location = Num la2" "l_longitude location = Num lo2"
    "- 90 \<le> la2" "la2 \<le> 90"
    by (auto simp: valid_fix_def split: jsnum.splits)
  obtain d where d: "calculateDistance (Num la1) (Num lo1) (Num la2) (Num lo2) = Num d" "0 \<le> d"
    using calculateDistance_valid [OF l1(3,4) l2(3,4)] by blast
  have "totalDistance (handleLocationData location s) = Num (t + d / 1000)"
    using p cs l1 l2 d assms(3)
    by (simp add: handleLocationData_def Let_def split: option.splits)
  moreover have "t \<le> t + d / 1000" using d(2) by simp
  ultimately show ?thesis by blast
qed

lemma setup_run:
  "run [LocationFix fix_a, StartSession 1000 ''s1''] ready_page
     = active_page\<lparr>currentLocation := Some fix_a, lastLocation := Some fix_a\<rparr>"
  by (simp add: active_page_eq ready_page_eq initial_page_def handleLocationData_def
      startSession_def reactive_counts_def fix_a_def Let_def)

text \<open>
  Claim C4, evaluated on the code. The fix \<open>fix_a\<close> arrives before the session is
  started; the session starts with distance 0 and no events; the first fix of the
  session, \<open>fix_b\<close>, adds the distance from \<open>fix_a\<close> to it, half the circumference of
  the Earth, to the distance of the session. (\<open>lastLocation\<close> is assigned by every fix
  and reset by neither \<open>startSession\<close> nor \<open>stopSession\<close>. For well-formed fixes the
  distance never decreases: \<open>handleLocationData_mono\<close>.)
\<close>

theorem stale_fix_counted:
  "totalDistance (run [LocationFix fix_a, StartSession 1000 ''s1''] ready_page) = Num 0
   \<and> map_option s_events (currentSession (run [LocationFix fix_a, StartSession 1000 ''s1''] ready_page))
       = Some []
   \<and> totalDistance (run [LocationFix fix_a, StartSession 1000 ''s1'', LocationFix fix_b] ready_page)
       = Num (6371 * pi)
   \<and> map_option s_totalDistance
        (currentSession (run [LocationFix fix_a, StartSession 1000 ''s1'', LocationFix fix_b] ready_page))
       = Some (Num (6371 * pi))"
proof -
  have split: "[LocationFix fix_a, StartSession 1000 ''s1'', LocationFix fix_b]
      = [LocationFix fix_a, StartSession 1000 ''s1''] @ [LocationFix fix_b]" by simp
  show ?thesis
    unfolding split run_append setup_run
    by (simp add: active_page_eq ready_page_eq initial_page_def handleLocationData_def
      reactive_counts_def Let_def fix_a_def fix_b_def distance_a_b)
qed

section \<open>Candidates before the first fix of a session\<close>


end
